theory Spec2Isabelle
  imports Main
begin

section \<open>The node networking core of Cil-core (src/node/node.js)\<close>

text \<open>
  The class \<open>Node\<close> of src/node/node.js is embedded with explicit state passing. JavaScript
  objects that are shared and mutated (the \<open>Peer\<close> objects, which the address book of the
  \<open>PeerManager\<close> and the message handlers both reach) live in an explicit store: a peer is
  named by its reference, and every handler takes the node state and the reference of the
  peer that sent the message.

  Naming: an Isabelle name cannot start with an underscore, so the private member
  \<open>this._nonce\<close> is the field \<open>this_nonce\<close>, and the private method \<open>_incomingMessage\<close> is
  \<open>incomingMessage\<close>. Output of \<open>debug\<close> and \<open>logger\<close> is not part of the state and is left
  out. Every handler is \<open>async\<close>; it is modelled as one atomic step, each \<open>await\<close> being
  taken at the point where the source writes it.
\<close>

subsection \<open>Constants (src/config/prod.conf.js)\<close>

definition Constants_protocolVersion :: nat where
  "Constants_protocolVersion = 291"  \<comment> \<open>0x0123\<close>

definition ADDR_MAX_LENGTH :: nat where
  "ADDR_MAX_LENGTH = 1000"

definition BAN_PEER_SCORE :: nat where
  "BAN_PEER_SCORE = 100"

definition MSG_VERSION :: string where "MSG_VERSION = ''version''"
definition MSG_VERACK :: string where "MSG_VERACK = ''verack''"
definition MSG_GET_ADDR :: string where "MSG_GET_ADDR = ''getaddr''"
definition MSG_ADDR :: string where "MSG_ADDR = ''addr''"
definition MSG_REJECT :: string where "MSG_REJECT = ''reject''"
definition MSG_TX :: string where "MSG_TX = ''tx''"

subsection \<open>Data\<close>

text \<open>
  \<open>Constants.NODE\<close> and \<open>Constants.WITNESS\<close> are the two service kinds the source names.
\<close>

datatype service = NODE | WITNESS

text \<open>
  Modelled from the spec: \<open>PeerInfo\<close> (not under src/), a descriptor with an address, a port
  and a set of capabilities, each a service kind with opaque data. The node calls the
  constructor with \<open>capabilities\<close>, \<open>address\<close> and, for its own descriptor only, \<open>port\<close>.
  \<open>peerInfo.data\<close> is the descriptor itself.
\<close>

record PeerInfo =
  capabilities :: "(service \<times> string) list"
  address :: string
  port :: "nat option"

text \<open>
  The class \<open>Transaction\<close> is not under src/. The node reads \<open>tx.publicKey\<close> and passes the
  transaction on; the rest of it is opaque here.
\<close>

record Transaction =
  publicKey :: string
  txBody :: string

text \<open>
  Modelled from the spec: a message (module \<open>Messages\<close>, not under src/) is a tagged record:
  a type tag (\<open>message.message\<close>, one of \<open>Constants.messageTypes\<close>) and a type-specific
  payload. The typed constructors \<open>new MsgVersion(message)\<close>, \<open>new MsgAddr(message)\<close>,
  \<open>new MsgReject(message)\<close> and \<open>new MsgTx(message)\<close> decode the payload, and fail on a
  payload of another kind.
\<close>

datatype Payload =
    NoPayload
  | VersionPayload nat nat PeerInfo nat  \<comment> \<open>nonce, protocolVersion, peerInfo, height\<close>
  | AddrPayload nat "PeerInfo list"      \<comment> \<open>count, peers\<close>
  | RejectPayload nat string              \<comment> \<open>code, reason\<close>
  | TxPayload Transaction

record MessageCommon =
  message :: string
  payload :: Payload

text \<open>
  Modelled from the spec: the predicates \<open>isReject()\<close>, \<open>isVersion()\<close>, ... of the message
  classes (module \<open>Messages\<close>, not under src/). A message is a tagged record and the
  predicates test the tag.
\<close>

definition isReject :: "MessageCommon \<Rightarrow> bool" where
  "isReject m = (message m = MSG_REJECT)"

definition isVersion :: "MessageCommon \<Rightarrow> bool" where
  "isVersion m = (message m = MSG_VERSION)"

definition isVerAck :: "MessageCommon \<Rightarrow> bool" where
  "isVerAck m = (message m = MSG_VERACK)"

definition isGetAddr :: "MessageCommon \<Rightarrow> bool" where
  "isGetAddr m = (message m = MSG_GET_ADDR)"

definition isAddr :: "MessageCommon \<Rightarrow> bool" where
  "isAddr m = (message m = MSG_ADDR)"

definition isTx :: "MessageCommon \<Rightarrow> bool" where
  "isTx m = (message m = MSG_TX)"

text \<open>The errors a handler can throw.\<close>

datatype error =
    Error string       \<comment> \<open>\<open>throw new Error(...)\<close>\<close>
  | TypeError string   \<comment> \<open>a member of \<open>undefined\<close> is read\<close>
  | DecodeFailure      \<comment> \<open>a typed message constructor rejects the payload\<close>

subsection \<open>Peer\<close>

text \<open>
  The calls the node makes on a peer object, in order. The journal shows what was sent on
  the connection and how often a method was called.
\<close>

datatype PeerCall =
    CallPushMessage MessageCommon
  | CallMisbehave nat
  | CallBan
  | CallDisconnect

text \<open>
  Modelled from the spec: the class \<open>Peer\<close> (not under src/), with the attributes the spec
  lists in its data model. \<open>banned\<close> stands for a \<open>bannedUntil\<close> deadline in force (time is
  not modelled). \<open>version\<close> is \<open>None\<close> until it is assigned.
\<close>

record Peer =
  peerInfo :: PeerInfo
  inbound :: bool
  version :: "nat option"
  fullyConnected :: bool
  disconnected :: bool
  misbehaviorScore :: nat
  banned :: bool
  loadDone :: bool
  calls :: "PeerCall list"

text \<open>
  Modelled from the spec: \<open>peer.address\<close> is the canonical address of the peer, the key of
  the address book; here it is the address of the peer's descriptor.
\<close>

definition Peer_address :: "Peer \<Rightarrow> string" where
  "Peer_address p = address (peerInfo p)"

text \<open>
  JavaScript truth of \<open>peer.version\<close>: \<open>undefined\<close> and \<open>0\<close> are both false. The node only
  ever stores a version that is at least \<open>Constants.protocolVersion\<close>.
\<close>

definition truthy :: "nat option \<Rightarrow> bool" where
  "truthy v = (case v of None \<Rightarrow> False | Some k \<Rightarrow> k \<noteq> 0)"

text \<open>
  Modelled from the spec: \<open>pushMessage(m)\<close> enqueues a send (per-peer order is kept).
\<close>

definition pushMessage :: "MessageCommon \<Rightarrow> Peer \<Rightarrow> Peer" where
  "pushMessage m p = p\<lparr>calls := calls p @ [CallPushMessage m]\<rparr>"

text \<open>
  Modelled from the spec: \<open>misbehave(points)\<close> adds to the score; if the score is then at
  least \<open>BAN_PEER_SCORE\<close>, the peer is banned and its connection is closed.
\<close>

definition misbehave :: "nat \<Rightarrow> Peer \<Rightarrow> Peer" where
  "misbehave points p =
     (let p' = p\<lparr>misbehaviorScore := misbehaviorScore p + points,
                 calls := calls p @ [CallMisbehave points]\<rparr>
      in if BAN_PEER_SCORE \<le> misbehaviorScore p'
         then p'\<lparr>banned := True, disconnected := True\<rparr>
         else p')"

text \<open>Modelled from the spec: \<open>ban()\<close> moves the peer to BANNED at once (a policy close).\<close>

definition ban :: "Peer \<Rightarrow> Peer" where
  "ban p = p\<lparr>banned := True, disconnected := True, calls := calls p @ [CallBan]\<rparr>"

text \<open>Modelled from the spec: \<open>disconnect()\<close> closes the connection.\<close>

definition disconnect :: "Peer \<Rightarrow> Peer" where
  "disconnect p = p\<lparr>disconnected := True, calls := calls p @ [CallDisconnect]\<rparr>"

text \<open>The messages pushed to a peer so far, oldest first.\<close>

fun sentMessages :: "PeerCall list \<Rightarrow> MessageCommon list" where
  "sentMessages [] = []"
| "sentMessages (CallPushMessage m # cs) = m # sentMessages cs"
| "sentMessages (c # cs) = sentMessages cs"

text \<open>A connection, as far as the node reads it.\<close>

record Connection =
  remoteAddress :: string

text \<open>
  Modelled from the spec: \<open>new Peer({connection, transport})\<close> is an inbound, connected
  peer whose descriptor is not yet known (it holds the remote address only).
\<close>

definition Peer_of_connection :: "Connection \<Rightarrow> Peer" where
  "Peer_of_connection c =
     \<lparr>peerInfo = \<lparr>capabilities = [], address = remoteAddress c, port = None\<rparr>,
      inbound = True, version = None, fullyConnected = False, disconnected = False,
      misbehaviorScore = 0, banned = False, loadDone = False, calls = []\<rparr>"

text \<open>
  Modelled from the spec: \<open>new Peer({peerInfo})\<close>, which the address book makes from a bare
  descriptor, is outbound and not yet connected.
\<close>

definition Peer_of_peerInfo :: "PeerInfo \<Rightarrow> Peer" where
  "Peer_of_peerInfo i =
     \<lparr>peerInfo = i,
      inbound = False, version = None, fullyConnected = False, disconnected = True,
      misbehaviorScore = 0, banned = False, loadDone = False, calls = []\<rparr>"

subsection \<open>Collaborators\<close>

text \<open>
  The module is a function of \<open>factory\<close>. Of the factory, the node uses two things whose
  value is not under src/: the reject code \<open>Constants.REJECT_DUPLICATE\<close> (injected from the
  protocol definitions) and the pure function \<open>Crypto.address\<close>. They are parameters.
\<close>

record Factory =
  REJECT_DUPLICATE :: nat
  Crypto_address :: "string \<Rightarrow> string"

text \<open>
  An account of \<open>Storage\<close> is opaque to the node, which only tests whether one was found.
\<close>

typedecl Account

text \<open>
  The mempool object \<open>this._mempool\<close>: its transactions and its method \<open>accept\<close>, which is
  taken as given (the class is not under src/). \<open>accept\<close> answers whether the transaction
  was admitted and gives the new content, or throws.
\<close>

record Mempool =
  txns :: "Transaction list"
  accept :: "Transaction \<Rightarrow> Transaction list \<Rightarrow> error + bool \<times> Transaction list"

subsection \<open>Node state\<close>

text \<open>
  \<open>heap\<close> is the store of \<open>Peer\<close> objects and \<open>nextRef\<close> the next free reference.
  \<open>this_peerManager\<close> is the address book: the references of the stored peers in insertion
  order. \<open>this_storage\<close> is what \<open>this._storage.getAccount\<close> answers for an address: it
  throws, finds nothing, or finds an account. \<open>this_mempool\<close> is \<open>None\<close> while the member is
  undefined (the constructor does not assign it). \<open>relayed\<close> lists the transactions handed
  to \<open>this._relayTx\<close>.
\<close>

record Node =
  this_nonce :: nat
  this_myPeerInfo :: PeerInfo
  this_mainChain :: nat
  heap :: "nat \<Rightarrow> Peer"
  nextRef :: nat
  this_peerManager :: "nat list"
  this_storage :: "string \<Rightarrow> error + Account option"
  this_mempool :: "Mempool option"
  relayed :: "Transaction list"

text \<open>A mutation of the peer object behind a reference.\<close>

definition onPeer :: "nat \<Rightarrow> (Peer \<Rightarrow> Peer) \<Rightarrow> Node \<Rightarrow> Node" where
  "onPeer r g n = n\<lparr>heap := (heap n)(r := g (heap n r))\<rparr>"

definition newPeer :: "Peer \<Rightarrow> Node \<Rightarrow> nat \<times> Node" where
  "newPeer p n = (nextRef n, n\<lparr>heap := (heap n)(nextRef n := p), nextRef := Suc (nextRef n)\<rparr>)"

subsection \<open>PeerManager\<close>

text \<open>The argument of \<open>addPeer\<close>: a live \<open>Peer\<close> object or a bare descriptor.\<close>

datatype PeerOrInfo = APeer nat | AInfo PeerInfo

definition findPeer :: "Node \<Rightarrow> string \<Rightarrow> nat option" where
  "findPeer n a = find (\<lambda>r. Peer_address (heap n r) = a) (this_peerManager n)"

definition mergeCapabilities :: "PeerInfo \<Rightarrow> Peer \<Rightarrow> Peer" where
  "mergeCapabilities i p =
     p\<lparr>peerInfo := (peerInfo p)\<lparr>capabilities :=
         capabilities (peerInfo p) @
         filter (\<lambda>c. c \<notin> set (capabilities (peerInfo p))) (capabilities i)\<rparr>\<rparr>"

text \<open>
  Modelled from the spec: \<open>PeerManager.addPeer\<close> (not under src/), keyed by the canonical
  address. An absent key is inserted and the stored peer returned. A live connection that
  collides with a stored live connection gives \<open>undefined\<close> (\<open>None\<close>). A descriptor for a
  stored key merges its capabilities into the stored peer and leaves the connection alone.
  A peer object for a stored key whose peer is not connected replaces that record; one that
  is itself not connected leaves a stored live peer in place.
\<close>

definition addPeer :: "PeerOrInfo \<Rightarrow> Node \<Rightarrow> nat option \<times> Node" where
  "addPeer x n =
     (case x of
        APeer r \<Rightarrow>
          (case findPeer n (Peer_address (heap n r)) of
             None \<Rightarrow> (Some r, n\<lparr>this_peerManager := this_peerManager n @ [r]\<rparr>)
           | Some e \<Rightarrow>
               if \<not> disconnected (heap n e) \<and> \<not> disconnected (heap n r) then (None, n)
               else if \<not> disconnected (heap n e) then (Some e, n)
               else (Some r, n\<lparr>this_peerManager :=
                        map (\<lambda>k. if k = e then r else k) (this_peerManager n)\<rparr>))
      | AInfo i \<Rightarrow>
          (case findPeer n (address i) of
             None \<Rightarrow>
               (let (r, n') = newPeer (Peer_of_peerInfo i) n
                in (Some r, n'\<lparr>this_peerManager := this_peerManager n' @ [r]\<rparr>))
           | Some e \<Rightarrow> (Some e, onPeer e (mergeCapabilities i) n)))"

text \<open>
  Modelled from the spec: \<open>filterPeers()\<close> (not under src/) without a predicate returns all
  stored peers.
\<close>

definition filterPeers :: "Node \<Rightarrow> Peer list" where
  "filterPeers n = map (heap n) (this_peerManager n)"

text \<open>
  Modelled from the spec: \<open>updateHandlers(peer)\<close> (not under src/) binds the message
  subscriptions of a peer again. Subscriptions are not part of the state.
\<close>

definition updateHandlers :: "nat \<Rightarrow> Node \<Rightarrow> Node" where
  "updateHandlers r n = n"

subsection \<open>Messages the node builds\<close>

definition MsgReject :: "nat \<Rightarrow> string \<Rightarrow> MessageCommon" where
  "MsgReject code reason = \<lparr>message = MSG_REJECT, payload = RejectPayload code reason\<rparr>"

definition MsgAddr :: "nat \<Rightarrow> PeerInfo list \<Rightarrow> MessageCommon" where
  "MsgAddr count peers = \<lparr>message = MSG_ADDR, payload = AddrPayload count peers\<rparr>"

definition msgVerack :: MessageCommon where
  "msgVerack = \<lparr>message = MSG_VERACK, payload = NoPayload\<rparr>"

definition msgGetAddr :: MessageCommon where
  "msgGetAddr = \<lparr>message = MSG_GET_ADDR, payload = NoPayload\<rparr>"

text \<open>
  \<open>_createMsgVersion\<close>: the constructor is given nonce, descriptor and height; the protocol
  version of the message is the node's own.
\<close>

definition createMsgVersion :: "Node \<Rightarrow> MessageCommon" where
  "createMsgVersion n =
     \<lparr>message = MSG_VERSION,
      payload = VersionPayload (this_nonce n) Constants_protocolVersion
                  (this_myPeerInfo n) (this_mainChain n)\<rparr>"

subsection \<open>Handlers\<close>

text \<open>
  A handler returns \<open>Inr\<close> the new state, or \<open>Inl\<close> the error it throws together with the
  state at the throw (what was mutated before stays mutated).
\<close>

type_synonym result = "error \<times> Node + Node"

text \<open>\<open>_incomingConnection\<close>: nothing in its body throws in this model, so the \<open>catch\<close> is idle.\<close>

definition incomingConnection :: "Factory \<Rightarrow> Node \<Rightarrow> Connection \<Rightarrow> Node" where
  "incomingConnection f n connection =
     (let (r, n1) = newPeer (Peer_of_connection connection) n;
          (result, n2) = addPeer (APeer r) n1
      in if result \<noteq> None then n2
         else onPeer r disconnect
                (onPeer r (pushMessage
                   (MsgReject (REJECT_DUPLICATE f) ''Duplicate connection detected'')) n2))"

definition handleVersionMessage :: "Node \<Rightarrow> nat \<Rightarrow> MessageCommon \<Rightarrow> result" where
  "handleVersionMessage n r m =
     (case payload m of
        VersionPayload nonce protoVersion info height \<Rightarrow>
          if nonce = this_nonce n then Inr (onPeer r ban n)
          else if Constants_protocolVersion \<le> protoVersion then
            (if \<not> truthy (version (heap n r)) then
               (let n1 = onPeer r (\<lambda>p. p\<lparr>version := Some protoVersion\<rparr>) n;
                    n2 = (if inbound (heap n1 r)
                          then onPeer r (pushMessage (createMsgVersion n1))
                                 (updateHandlers r (onPeer r (\<lambda>p. p\<lparr>peerInfo := info\<rparr>) n1))
                          else n1)
                in Inr (onPeer r (pushMessage msgVerack) n2))
             else Inr (onPeer r (misbehave 1) n))
          else Inr (onPeer r disconnect n)
      | _ \<Rightarrow> Inl (DecodeFailure, n))"

definition handleVerackMessage :: "Node \<Rightarrow> nat \<Rightarrow> Node" where
  "handleVerackMessage n r =
     (if truthy (version (heap n r)) then
        (let n1 = onPeer r (\<lambda>p. p\<lparr>fullyConnected := True\<rparr>) n
         in if \<not> inbound (heap n1 r) then onPeer r (pushMessage msgGetAddr) n1 else n1)
      else n)"

text \<open>
  \<open>_handlePeerRequest\<close>. The test of \<open>arrPeers.length\<close> against \<open>ADDR_MAX_LENGTH\<close> only logs
  an error and execution goes on, so it leaves no trace in the state.
\<close>

definition handlePeerRequest :: "Node \<Rightarrow> nat \<Rightarrow> Node" where
  "handlePeerRequest n r =
     (let arrPeers = map peerInfo (filterPeers n)
      in onPeer r (pushMessage (MsgAddr (length arrPeers) arrPeers)) n)"

text \<open>
  The loop of \<open>_handlePeerList\<close>. The debug line reads \<open>newPeer.address\<close>, which throws when
  \<open>addPeer\<close> gave \<open>undefined\<close>.
\<close>

fun addPeers :: "Node \<Rightarrow> PeerInfo list \<Rightarrow> result" where
  "addPeers n [] = Inr n"
| "addPeers n (i # rest) =
     (case addPeer (AInfo i) n of
        (None, n') \<Rightarrow> Inl (TypeError ''address'', n')
      | (Some k, n') \<Rightarrow> addPeers n' rest)"

definition handlePeerList :: "Node \<Rightarrow> nat \<Rightarrow> MessageCommon \<Rightarrow> result" where
  "handlePeerList n r m =
     (case payload m of
        AddrPayload count peers \<Rightarrow>
          (case addPeers n peers of
             Inl e \<Rightarrow> Inl e
           | Inr n' \<Rightarrow> Inr (onPeer r (\<lambda>p. p\<lparr>loadDone := True\<rparr>) n'))
      | _ \<Rightarrow> Inl (DecodeFailure, n))"

definition checkTx :: "Factory \<Rightarrow> Node \<Rightarrow> Transaction \<Rightarrow> error + unit" where
  "checkTx f n tx =
     (let senderAddr = Crypto_address f (publicKey tx)
      in case this_storage n senderAddr of
           Inl e \<Rightarrow> Inl e
         | Inr None \<Rightarrow> Inl (Error ''Account doesn't found'')
         | Inr (Some a) \<Rightarrow> Inr ())"

text \<open>
  Modelled from the spec: \<open>_relayTx\<close>, which \<open>_handleTx\<close> calls and the class under src/ does
  not define. The spec has an accepted transaction announced to the other peers; the model
  records the transaction that is handed over for relay.
\<close>

definition relayTx :: "Transaction \<Rightarrow> Node \<Rightarrow> Node" where
  "relayTx tx n = n\<lparr>relayed := relayed n @ [tx]\<rparr>"

definition handleTx :: "Factory \<Rightarrow> Node \<Rightarrow> nat \<Rightarrow> MessageCommon \<Rightarrow> result" where
  "handleTx f n r m =
     (case payload m of
        TxPayload tx \<Rightarrow>
          (case checkTx f n tx of
             Inl e \<Rightarrow> Inl (e, n)
           | Inr _ \<Rightarrow>
               (case this_mempool n of
                  None \<Rightarrow> Inl (TypeError ''accept'', n)
                | Some mp \<Rightarrow>
                    (case accept mp tx (txns mp) of
                       Inl e \<Rightarrow> Inl (e, n)
                     | Inr (accepted, txns') \<Rightarrow>
                         (let n' = n\<lparr>this_mempool := Some (mp\<lparr>txns := txns'\<rparr>)\<rparr>
                          in if accepted then Inr (relayTx tx n') else Inr n'))))
      | _ \<Rightarrow> Inl (DecodeFailure, n))"

text \<open>The body of the \<open>try\<close> of \<open>_incomingMessage\<close>.\<close>

definition incomingMessage_try :: "Factory \<Rightarrow> Node \<Rightarrow> nat \<Rightarrow> MessageCommon \<Rightarrow> result" where
  "incomingMessage_try f n r m =
     (if isReject m then
        (case payload m of
           RejectPayload code reason \<Rightarrow>
             Inr (onPeer r (\<lambda>p. p\<lparr>loadDone := True\<rparr>) (onPeer r (misbehave 1) n))
         | _ \<Rightarrow> Inl (DecodeFailure, n))
      else if isVersion m then handleVersionMessage n r m
      else if isVerAck m then Inr (handleVerackMessage n r)
      else if \<not> fullyConnected (heap n r) then Inr (onPeer r (misbehave 1) n)
      else if isGetAddr m then Inr (handlePeerRequest n r)
      else if isAddr m then handlePeerList n r m
      else if isTx m then handleTx f n r m
      else Inl (Error ''Unhandled message type'', n))"

text \<open>\<open>_incomingMessage\<close>: the \<open>catch\<close> costs the peer one point, whatever was thrown.\<close>

definition incomingMessage :: "Factory \<Rightarrow> Node \<Rightarrow> nat \<Rightarrow> MessageCommon \<Rightarrow> Node" where
  "incomingMessage f n r m =
     (case incomingMessage_try f n r m of
        Inr n' \<Rightarrow> n'
      | Inl (err, n') \<Rightarrow> onPeer r (misbehave 1) n')"

subsection \<open>Address already bound to a live peer\<close>

text \<open>
  The condition of the duplicate-connection rule, in the words of the spec: the address is
  a key of the address book and the peer stored under it is connected.
\<close>

definition boundToLivePeer :: "Node \<Rightarrow> string \<Rightarrow> bool" where
  "boundToLivePeer n a =
     (case findPeer n a of None \<Rightarrow> False | Some e \<Rightarrow> \<not> disconnected (heap n e))"

subsection \<open>Example states\<close>

definition exampleFactory :: Factory where
  "exampleFactory = \<lparr>REJECT_DUPLICATE = 1, Crypto_address = (\<lambda>k. ''Ux'' @ k)\<rparr>"

text \<open>An outbound peer that has been dialled and has not yet sent its version.\<close>

definition examplePeer :: Peer where
  "examplePeer =
     (Peer_of_peerInfo \<lparr>capabilities = [(NODE, [])], address = ''10.0.0.1'', port = None\<rparr>)
       \<lparr>disconnected := False\<rparr>"

text \<open>
  A node with nonce 777 and one peer, stored in the address book under reference 0. Its
  storage knows no account and fails for the address \<open>Uxbroken\<close>; its mempool admits
  everything.
\<close>

definition exampleNode :: Node where
  "exampleNode =
     \<lparr>this_nonce = 777,
      this_myPeerInfo = \<lparr>capabilities = [(NODE, [])], address = ''10.0.0.9'', port = Some 8223\<rparr>,
      this_mainChain = 0,
      heap = (\<lambda>k. examplePeer),
      nextRef = 1,
      this_peerManager = [0],
      this_storage = (\<lambda>a. if a = ''Uxbroken'' then Inl (Error ''storage failure'') else Inr None),
      this_mempool = Some \<lparr>txns = [], accept = (\<lambda>tx pool. Inr (True, pool @ [tx]))\<rparr>,
      relayed = []\<rparr>"

text \<open>The same node after the handshake with its peer.\<close>

definition connectedNode :: Node where
  "connectedNode =
     onPeer 0 (\<lambda>p. p\<lparr>version := Some Constants_protocolVersion, fullyConnected := True\<rparr>)
       exampleNode"

text \<open>
  A node whose address book holds 1001 peers with 1001 addresses, the first of them fully
  connected.
\<close>

definition crowdedNode :: Node where
  "crowdedNode =
     exampleNode
       \<lparr>heap := (\<lambda>k. examplePeer
                   \<lparr>peerInfo := \<lparr>capabilities = [(NODE, [])],
                                 address = replicate k (CHR ''1''), port = None\<rparr>,
                    version := Some Constants_protocolVersion, fullyConnected := True\<rparr>),
        nextRef := 1001,
        this_peerManager := [0..<1001]\<rparr>"

definition msgPing :: MessageCommon where
  "msgPing = \<lparr>message = ''ping'', payload = NoPayload\<rparr>"

definition exampleTx :: Transaction where
  "exampleTx = \<lparr>publicKey = ''0a0b0c0d'', txBody = ''pay''\<rparr>"

definition MsgTx :: "Transaction \<Rightarrow> MessageCommon" where
  "MsgTx tx = \<lparr>message = MSG_TX, payload = TxPayload tx\<rparr>"

text \<open>A transaction whose sender address is the one the example storage fails for.\<close>

definition brokenTx :: Transaction where
  "brokenTx = \<lparr>publicKey = ''broken'', txBody = ''pay''\<rparr>"

text \<open>The example node after its peer has sent a version, before the verack.\<close>

definition versionKnownNode :: Node where
  "versionKnownNode =
     onPeer 0 (\<lambda>p. p\<lparr>version := Some Constants_protocolVersion\<rparr>) exampleNode"


text \<open>A node whose peer connected to it and has sent a version.\<close>

definition inboundNode :: Node where
  "inboundNode =
     onPeer 0 (\<lambda>p. p\<lparr>inbound := True, version := Some Constants_protocolVersion\<rparr>) exampleNode"

section \<open>Properties\<close>

subsection \<open>Helper lemmas\<close>

lemmas messageTypes =
  MSG_VERSION_def MSG_VERACK_def MSG_GET_ADDR_def MSG_ADDR_def MSG_REJECT_def MSG_TX_def

lemmas isType = isReject_def isVersion_def isVerAck_def isGetAddr_def isAddr_def isTx_def

lemma misbehave_score: "misbehaviorScore (misbehave k p) = misbehaviorScore p + k"
  by (simp add: misbehave_def Let_def)

lemma misbehave_calls: "calls (misbehave k p) = calls p @ [CallMisbehave k]"
  by (simp add: misbehave_def Let_def)

lemma misbehave_keeps:
  "version (misbehave k p) = version p"
  "fullyConnected (misbehave k p) = fullyConnected p"
  "loadDone (misbehave k p) = loadDone p"
  "peerInfo (misbehave k p) = peerInfo p"
  "inbound (misbehave k p) = inbound p"
  by (simp_all add: misbehave_def Let_def)

lemma misbehave_below:
  "misbehaviorScore p + k < BAN_PEER_SCORE \<Longrightarrow>
   misbehave k p = p\<lparr>misbehaviorScore := misbehaviorScore p + k,
                       calls := calls p @ [CallMisbehave k]\<rparr>"
  by (simp add: misbehave_def Let_def)

lemma sentMessages_append: "sentMessages (xs @ ys) = sentMessages xs @ sentMessages ys"
  by (induction xs rule: sentMessages.induct) simp_all

text \<open>What the \<open>catch\<close> of the dispatcher does with a thrown error.\<close>

lemma catch_all:
  "incomingMessage_try f n r m = Inl (e, n') \<Longrightarrow>
   incomingMessage f n r m = onPeer r (misbehave 1) n'"
  by (simp add: incomingMessage_def)

text \<open>Facts about the example states.\<close>

lemma exampleNode_facts:
  "\<not> fullyConnected (heap exampleNode 0)"
  "misbehaviorScore (heap exampleNode 0) = 0"
  "calls (heap exampleNode 0) = []"
  "version (heap exampleNode 0) = None"
  "\<not> inbound (heap exampleNode 0)"
  "this_nonce exampleNode = 777"
  "misbehaviorScore (heap exampleNode 0) + 1 < BAN_PEER_SCORE"
  by (simp_all add: exampleNode_def examplePeer_def Peer_of_peerInfo_def BAN_PEER_SCORE_def)

lemma connectedNode_facts:
  "fullyConnected (heap connectedNode 0)"
  "misbehaviorScore (heap connectedNode 0) = 0"
  "calls (heap connectedNode 0) = []"
  "relayed connectedNode = []"
  "this_mempool connectedNode = this_mempool exampleNode"
  "misbehaviorScore (heap connectedNode 0) + 1 < BAN_PEER_SCORE"
  by (simp_all add: connectedNode_def onPeer_def exampleNode_def examplePeer_def
      Peer_of_peerInfo_def BAN_PEER_SCORE_def)

lemma MsgTx_fields: "message (MsgTx tx) = MSG_TX" "payload (MsgTx tx) = TxPayload tx"
  by (simp_all add: MsgTx_def)

lemma msgVerack_tag: "message msgVerack = MSG_VERACK"
  by (simp add: msgVerack_def)

subsection \<open>Handshake gating\<close>

text \<open>
  C1. For a peer that is not fully connected, a message whose type is not version, verack
  or reject has exactly the effect of the one call \<open>peer.misbehave(1)\<close>: the score of the
  peer goes up by 1 and this call is the only entry added to the peer's journal. Nothing
  is sent, no handler runs (version, fullyConnected, loadDone and the descriptor of the
  peer stay as they were), and the address book, the mempool, the relay list and every
  other peer are unchanged. While the new score is below \<open>BAN_PEER_SCORE\<close>, the score and the
  journal are all that changes in the peer; the ban of a peer that reaches the threshold is
  what \<open>misbehave\<close> itself does.
\<close>

theorem handshake_gating:
  assumes "\<not> fullyConnected (heap n r)"
    and "message m \<noteq> MSG_VERSION" and "message m \<noteq> MSG_VERACK" and "message m \<noteq> MSG_REJECT"
  shows "incomingMessage f n r m = n\<lparr>heap := (heap n)(r := misbehave 1 (heap n r))\<rparr>
       \<and> misbehaviorScore (heap (incomingMessage f n r m) r) = misbehaviorScore (heap n r) + 1
       \<and> calls (heap (incomingMessage f n r m) r) = calls (heap n r) @ [CallMisbehave 1]
       \<and> sentMessages (calls (heap (incomingMessage f n r m) r)) = sentMessages (calls (heap n r))
       \<and> version (heap (incomingMessage f n r m) r) = version (heap n r)
       \<and> fullyConnected (heap (incomingMessage f n r m) r) = fullyConnected (heap n r)
       \<and> loadDone (heap (incomingMessage f n r m) r) = loadDone (heap n r)
       \<and> peerInfo (heap (incomingMessage f n r m) r) = peerInfo (heap n r)
       \<and> this_peerManager (incomingMessage f n r m) = this_peerManager n
       \<and> this_mempool (incomingMessage f n r m) = this_mempool n
       \<and> relayed (incomingMessage f n r m) = relayed n
       \<and> (misbehaviorScore (heap n r) + 1 < BAN_PEER_SCORE \<longrightarrow>
            heap (incomingMessage f n r m) r
              = (heap n r)\<lparr>misbehaviorScore := misbehaviorScore (heap n r) + 1,
                            calls := calls (heap n r) @ [CallMisbehave 1]\<rparr>)"
proof -
  have step: "incomingMessage f n r m = onPeer r (misbehave 1) n"
    using assms by (simp add: incomingMessage_def incomingMessage_try_def isType)
  have below: "misbehaviorScore (heap n r) + 1 < BAN_PEER_SCORE \<longrightarrow>
      heap (onPeer r (misbehave 1) n) r
        = (heap n r)\<lparr>misbehaviorScore := misbehaviorScore (heap n r) + 1,
                      calls := calls (heap n r) @ [CallMisbehave 1]\<rparr>"
    by (simp add: onPeer_def misbehave_below)
  show ?thesis
    unfolding step using below
    by (simp add: onPeer_def misbehave_score misbehave_calls misbehave_keeps sentMessages_append)
qed

text \<open>
  Scenario 3 of the spec: a transaction from a peer that has not completed the handshake.
\<close>

theorem handshake_gating_witness:
  "\<not> fullyConnected (heap exampleNode 0)
   \<and> message (MsgTx exampleTx) \<noteq> MSG_VERSION \<and> message (MsgTx exampleTx) \<noteq> MSG_VERACK
   \<and> message (MsgTx exampleTx) \<noteq> MSG_REJECT
   \<and> misbehaviorScore (heap exampleNode 0) + 1 < BAN_PEER_SCORE
   \<and> misbehaviorScore (heap (incomingMessage exampleFactory exampleNode 0 (MsgTx exampleTx)) 0) = 1
   \<and> this_mempool (incomingMessage exampleFactory exampleNode 0 (MsgTx exampleTx))
       = this_mempool exampleNode
   \<and> heap (incomingMessage exampleFactory exampleNode 0 (MsgTx exampleTx)) 0
       = (heap exampleNode 0)\<lparr>misbehaviorScore := 1, calls := [CallMisbehave 1]\<rparr>"
proof -
  have tags: "message (MsgTx exampleTx) \<noteq> MSG_VERSION" "message (MsgTx exampleTx) \<noteq> MSG_VERACK"
    "message (MsgTx exampleTx) \<noteq> MSG_REJECT"
    by (simp_all add: MsgTx_def messageTypes)
  from handshake_gating [OF exampleNode_facts(1) tags, of exampleFactory] exampleNode_facts tags
  show ?thesis
    by (simp add: misbehave_score misbehave_below)
qed

subsection \<open>Self-connection\<close>

text \<open>
  C2. A received version message whose nonce is the node's own makes the handler call
  \<open>peer.ban()\<close> exactly once and return: the call is the one entry added to the peer's
  journal, so nothing is sent on the connection (neither a verack nor the node's own
  version), and \<open>peer.version\<close> is not set.
\<close>

theorem self_connection:
  assumes "message m = MSG_VERSION"
    and "payload m = VersionPayload nonce protoVersion info height"
    and "nonce = this_nonce n"
  shows "incomingMessage f n r m = n\<lparr>heap := (heap n)(r := ban (heap n r))\<rparr>
       \<and> handleVersionMessage n r m = Inr (n\<lparr>heap := (heap n)(r := ban (heap n r))\<rparr>)
       \<and> calls (heap (incomingMessage f n r m) r) = calls (heap n r) @ [CallBan]
       \<and> sentMessages (calls (heap (incomingMessage f n r m) r)) = sentMessages (calls (heap n r))
       \<and> version (heap (incomingMessage f n r m) r) = version (heap n r)
       \<and> banned (heap (incomingMessage f n r m) r)"
proof -
  have handler: "handleVersionMessage n r m = Inr (onPeer r ban n)"
    using assms by (simp add: handleVersionMessage_def)
  have step: "incomingMessage f n r m = onPeer r ban n"
    using assms(1) handler
    by (simp add: incomingMessage_def incomingMessage_try_def isType messageTypes)
  show ?thesis
    unfolding step handler
    by (simp add: onPeer_def ban_def sentMessages_append)
qed

text \<open>Scenario 1 of the spec: the node with nonce 777 receives its own version message.\<close>

theorem self_connection_witness:
  "message (createMsgVersion exampleNode) = MSG_VERSION
   \<and> payload (createMsgVersion exampleNode)
       = VersionPayload 777 Constants_protocolVersion (this_myPeerInfo exampleNode) 0
   \<and> 777 = this_nonce exampleNode
   \<and> calls (heap (incomingMessage exampleFactory exampleNode 0 (createMsgVersion exampleNode)) 0)
       = [CallBan]
   \<and> version (heap (incomingMessage exampleFactory exampleNode 0 (createMsgVersion exampleNode)) 0)
       = None"
proof -
  have tag: "message (createMsgVersion exampleNode) = MSG_VERSION"
    by (simp add: createMsgVersion_def)
  have load: "payload (createMsgVersion exampleNode)
       = VersionPayload 777 Constants_protocolVersion (this_myPeerInfo exampleNode) 0"
    by (simp add: createMsgVersion_def exampleNode_def)
  have own: "777 = this_nonce exampleNode"
    by (simp add: exampleNode_def)
  from self_connection [OF tag load own, of exampleFactory 0] exampleNode_facts tag load
  show ?thesis
    by (simp add: ban_def)
qed

subsection \<open>Duplicate connection\<close>

text \<open>A new object does not disturb the lookup in the address book.\<close>

lemma findPeer_newPeer:
  assumes "nextRef n \<notin> set (this_peerManager n)"
  shows "findPeer (snd (newPeer p n)) a = findPeer n a"
proof -
  have "find (\<lambda>r. Peer_address (((heap n)(nextRef n := p)) r) = a) (this_peerManager n)
      = find (\<lambda>r. Peer_address (heap n r) = a) (this_peerManager n)"
    using assms by (intro find_cong) auto
  then show ?thesis
    by (simp add: findPeer_def newPeer_def)
qed

lemma findPeer_in_book: "findPeer n a = Some e \<Longrightarrow> e \<in> set (this_peerManager n)"
  by (auto simp: findPeer_def find_Some_iff)

lemma newPeer_fields:
  "fst (newPeer p n) = nextRef n"
  "heap (snd (newPeer p n)) = (heap n)(nextRef n := p)"
  "this_peerManager (snd (newPeer p n)) = this_peerManager n"
  by (simp_all add: newPeer_def)

lemma Peer_of_connection_fields:
  "Peer_address (Peer_of_connection c) = remoteAddress c"
  "\<not> disconnected (Peer_of_connection c)"
  "calls (Peer_of_connection c) = []"
  by (simp_all add: Peer_of_connection_def Peer_address_def)

lemma addPeer_collision:
  assumes "nextRef n \<notin> set (this_peerManager n)"
    and "boundToLivePeer n (remoteAddress c)"
  shows "addPeer (APeer (nextRef n)) (snd (newPeer (Peer_of_connection c) n))
           = (None, snd (newPeer (Peer_of_connection c) n))"
proof -
  from assms(2) obtain e where e: "findPeer n (remoteAddress c) = Some e"
    and live: "\<not> disconnected (heap n e)"
    by (auto simp: boundToLivePeer_def split: option.splits)
  from e assms(1) have "e \<noteq> nextRef n"
    using findPeer_in_book by metis
  with e live show ?thesis
    by (simp add: addPeer_def findPeer_newPeer [OF assms(1)] newPeer_fields
        Peer_of_connection_fields)
qed

lemma addPeer_no_collision:
  assumes "nextRef n \<notin> set (this_peerManager n)"
    and "\<not> boundToLivePeer n (remoteAddress c)"
  shows "\<exists>book. addPeer (APeer (nextRef n)) (snd (newPeer (Peer_of_connection c) n))
           = (Some (nextRef n),
              (snd (newPeer (Peer_of_connection c) n))\<lparr>this_peerManager := book\<rparr>)"
proof (cases "findPeer n (remoteAddress c)")
  case None
  then have "addPeer (APeer (nextRef n)) (snd (newPeer (Peer_of_connection c) n))
      = (Some (nextRef n), (snd (newPeer (Peer_of_connection c) n))
           \<lparr>this_peerManager := this_peerManager n @ [nextRef n]\<rparr>)"
    by (simp add: addPeer_def findPeer_newPeer [OF assms(1)] newPeer_fields
        Peer_of_connection_fields)
  then show ?thesis by blast
next
  case (Some e)
  with assms(2) have dead: "disconnected (heap n e)"
    by (simp add: boundToLivePeer_def)
  from Some assms(1) have "e \<noteq> nextRef n"
    using findPeer_in_book by metis
  with Some dead have "addPeer (APeer (nextRef n)) (snd (newPeer (Peer_of_connection c) n))
      = (Some (nextRef n), (snd (newPeer (Peer_of_connection c) n))
           \<lparr>this_peerManager := map (\<lambda>k. if k = e then nextRef n else k) (this_peerManager n)\<rparr>)"
    by (simp add: addPeer_def findPeer_newPeer [OF assms(1)] newPeer_fields
        Peer_of_connection_fields)
  then show ?thesis by blast
qed

text \<open>
  C3. The new peer object of an inbound connection gets the reference \<open>nextRef n\<close>, which
  is not yet in the address book. If the remote address is bound to a live peer, \<open>addPeer\<close>
  gives \<open>undefined\<close> and the node makes exactly two calls on the new peer: it pushes one
  reject message with code \<open>REJECT_DUPLICATE\<close> and reason "Duplicate connection detected",
  then disconnects. The address book and every peer object that existed before are
  unchanged. If the address is not bound to a live peer, \<open>addPeer\<close> returns the new peer,
  and the node calls nothing on it: no reject is sent and the connection stays open.
\<close>

theorem duplicate_connection:
  assumes "nextRef n \<notin> set (this_peerManager n)"
  shows "(boundToLivePeer n (remoteAddress c) \<longrightarrow>
            fst (addPeer (APeer (nextRef n)) (snd (newPeer (Peer_of_connection c) n))) = None
          \<and> calls (heap (incomingConnection f n c) (nextRef n))
              = [CallPushMessage (MsgReject (REJECT_DUPLICATE f) ''Duplicate connection detected''),
                 CallDisconnect]
          \<and> sentMessages (calls (heap (incomingConnection f n c) (nextRef n)))
              = [MsgReject (REJECT_DUPLICATE f) ''Duplicate connection detected'']
          \<and> disconnected (heap (incomingConnection f n c) (nextRef n))
          \<and> this_peerManager (incomingConnection f n c) = this_peerManager n
          \<and> filterPeers (incomingConnection f n c) = filterPeers n
          \<and> heap (incomingConnection f n c)
              = (heap n)(nextRef n := heap (incomingConnection f n c) (nextRef n)))
       \<and> (\<not> boundToLivePeer n (remoteAddress c) \<longrightarrow>
            fst (addPeer (APeer (nextRef n)) (snd (newPeer (Peer_of_connection c) n)))
              = Some (nextRef n)
          \<and> calls (heap (incomingConnection f n c) (nextRef n)) = []
          \<and> \<not> disconnected (heap (incomingConnection f n c) (nextRef n)))"
proof (intro conjI impI)
  assume live: "boundToLivePeer n (remoteAddress c)"
  note col = addPeer_collision [OF assms live]
  have run: "incomingConnection f n c
      = onPeer (nextRef n) disconnect
          (onPeer (nextRef n)
             (pushMessage (MsgReject (REJECT_DUPLICATE f) ''Duplicate connection detected''))
             (snd (newPeer (Peer_of_connection c) n)))"
    by (simp add: incomingConnection_def case_prod_beta newPeer_fields col)
  show "fst (addPeer (APeer (nextRef n)) (snd (newPeer (Peer_of_connection c) n))) = None"
    by (simp add: col)
  show "calls (heap (incomingConnection f n c) (nextRef n))
      = [CallPushMessage (MsgReject (REJECT_DUPLICATE f) ''Duplicate connection detected''),
         CallDisconnect]"
    by (simp add: run onPeer_def newPeer_fields disconnect_def pushMessage_def
        Peer_of_connection_fields)
  then show "sentMessages (calls (heap (incomingConnection f n c) (nextRef n)))
      = [MsgReject (REJECT_DUPLICATE f) ''Duplicate connection detected'']"
    by simp
  show "disconnected (heap (incomingConnection f n c) (nextRef n))"
    by (simp add: run onPeer_def disconnect_def)
  show book: "this_peerManager (incomingConnection f n c) = this_peerManager n"
    by (simp add: run onPeer_def newPeer_fields)
  show others: "heap (incomingConnection f n c)
      = (heap n)(nextRef n := heap (incomingConnection f n c) (nextRef n))"
    by (simp add: run onPeer_def newPeer_fields)
  show "filterPeers (incomingConnection f n c) = filterPeers n"
    unfolding filterPeers_def book
    using assms by (subst others) (auto intro: map_cong)
next
  assume free: "\<not> boundToLivePeer n (remoteAddress c)"
  from addPeer_no_collision [OF assms free] obtain book where
    add: "addPeer (APeer (nextRef n)) (snd (newPeer (Peer_of_connection c) n))
           = (Some (nextRef n),
              (snd (newPeer (Peer_of_connection c) n))\<lparr>this_peerManager := book\<rparr>)"
    by blast
  have run: "incomingConnection f n c
      = (snd (newPeer (Peer_of_connection c) n))\<lparr>this_peerManager := book\<rparr>"
    by (simp add: incomingConnection_def case_prod_beta newPeer_fields add)
  show "fst (addPeer (APeer (nextRef n)) (snd (newPeer (Peer_of_connection c) n)))
      = Some (nextRef n)"
    by (simp add: add)
  show "calls (heap (incomingConnection f n c) (nextRef n)) = []"
    by (simp add: run newPeer_fields Peer_of_connection_fields)
  show "\<not> disconnected (heap (incomingConnection f n c) (nextRef n))"
    by (simp add: run newPeer_fields Peer_of_connection_fields)
qed

lemma exampleNode_book:
  "nextRef exampleNode \<notin> set (this_peerManager exampleNode)"
  "nextRef exampleNode = 1"
  "boundToLivePeer exampleNode ''10.0.0.1''"
  "\<not> boundToLivePeer exampleNode ''10.0.0.2''"
  by (simp_all add: exampleNode_def examplePeer_def Peer_of_peerInfo_def boundToLivePeer_def
      findPeer_def Peer_address_def)

text \<open>
  Scenario 4 of the spec: a second connection from the address of the live peer, and a
  first connection from another address.
\<close>

theorem duplicate_connection_witness:
  "nextRef exampleNode \<notin> set (this_peerManager exampleNode)
   \<and> boundToLivePeer exampleNode (remoteAddress \<lparr>remoteAddress = ''10.0.0.1''\<rparr>)
   \<and> sentMessages (calls (heap
        (incomingConnection exampleFactory exampleNode \<lparr>remoteAddress = ''10.0.0.1''\<rparr>) 1))
        = [MsgReject 1 ''Duplicate connection detected'']
   \<and> disconnected (heap
        (incomingConnection exampleFactory exampleNode \<lparr>remoteAddress = ''10.0.0.1''\<rparr>) 1)
   \<and> filterPeers (incomingConnection exampleFactory exampleNode \<lparr>remoteAddress = ''10.0.0.1''\<rparr>)
        = filterPeers exampleNode
   \<and> \<not> boundToLivePeer exampleNode (remoteAddress \<lparr>remoteAddress = ''10.0.0.2''\<rparr>)
   \<and> calls (heap
        (incomingConnection exampleFactory exampleNode \<lparr>remoteAddress = ''10.0.0.2''\<rparr>) 1) = []"
proof -
  have code: "REJECT_DUPLICATE exampleFactory = 1"
    by (simp add: exampleFactory_def)
  from duplicate_connection [OF exampleNode_book(1), of "\<lparr>remoteAddress = ''10.0.0.1''\<rparr>"
      exampleFactory]
    duplicate_connection [OF exampleNode_book(1), of "\<lparr>remoteAddress = ''10.0.0.2''\<rparr>"
      exampleFactory]
    exampleNode_book code
  show ?thesis by simp
qed

subsection \<open>Address request\<close>

lemma getaddr_step:
  assumes "fullyConnected (heap n r)" and "message m = MSG_GET_ADDR"
  shows "incomingMessage f n r m = handlePeerRequest n r"
  using assms
  by (simp add: incomingMessage_def incomingMessage_try_def isType messageTypes)

text \<open>The answer to an address request is always one message that lists the whole book.\<close>

lemma handlePeerRequest_sent:
  "sentMessages (calls (heap (handlePeerRequest n r) r))
     = sentMessages (calls (heap n r))
       @ [MsgAddr (length (filterPeers n)) (map peerInfo (filterPeers n))]"
  by (simp add: handlePeerRequest_def onPeer_def pushMessage_def sentMessages_append Let_def)

lemma crowdedNode_facts:
  "fullyConnected (heap crowdedNode 0)"
  "calls (heap crowdedNode 0) = []"
  "length (filterPeers crowdedNode) = 1001"
  by (simp_all add: crowdedNode_def exampleNode_def examplePeer_def Peer_of_peerInfo_def
      filterPeers_def del: upt_rec_numeral)

lemma msgGetAddr_tag: "message msgGetAddr = MSG_GET_ADDR"
  by (simp add: msgGetAddr_def)

text \<open>
  C4. The claim (every addr message holds at most \<open>ADDR_MAX_LENGTH\<close> entries, a longer
  book is split) fails on the code: with 1001 peers in the address book, the answer to a
  getaddr of a fully connected peer is a single addr message of 1001 entries.
\<close>

theorem getaddr_single_message:
  "fullyConnected (heap crowdedNode 0)
   \<and> message msgGetAddr = MSG_GET_ADDR
   \<and> length (filterPeers crowdedNode) = 1001
   \<and> ADDR_MAX_LENGTH < 1001
   \<and> sentMessages (calls (heap (incomingMessage exampleFactory crowdedNode 0 msgGetAddr) 0))
       = [MsgAddr 1001 (map peerInfo (filterPeers crowdedNode))]"
  by (simp add: getaddr_step [OF crowdedNode_facts(1) msgGetAddr_tag] handlePeerRequest_sent
      crowdedNode_facts msgGetAddr_tag ADDR_MAX_LENGTH_def)

subsection \<open>Verack\<close>

lemma verack_step:
  "message m = MSG_VERACK \<Longrightarrow> incomingMessage f n r m = handleVerackMessage n r"
  by (simp add: incomingMessage_def incomingMessage_try_def isType messageTypes)

text \<open>
  C5, as amended. On a verack from a peer whose version is set, the peer becomes fully
  connected, and the node sends a getaddr if it initiated the connection, and nothing if the
  peer did. On a verack from a peer whose version is not set, nothing happens at all: the
  state is unchanged and no getaddr is sent, whoever initiated the connection.
\<close>

theorem verack_received:
  assumes "message m = MSG_VERACK"
  shows "(truthy (version (heap n r)) \<longrightarrow> fullyConnected (heap (incomingMessage f n r m) r))
       \<and> (truthy (version (heap n r)) \<and> \<not> inbound (heap n r) \<longrightarrow>
            sentMessages (calls (heap (incomingMessage f n r m) r))
              = sentMessages (calls (heap n r)) @ [msgGetAddr])
       \<and> (truthy (version (heap n r)) \<and> inbound (heap n r) \<longrightarrow>
            sentMessages (calls (heap (incomingMessage f n r m) r))
              = sentMessages (calls (heap n r)))
       \<and> (\<not> truthy (version (heap n r)) \<longrightarrow> incomingMessage f n r m = n)"
  unfolding verack_step [OF assms]
  by (simp add: handleVerackMessage_def onPeer_def pushMessage_def sentMessages_append Let_def)

lemma inboundNode_facts:
  "truthy (version (heap inboundNode 0))"
  "inbound (heap inboundNode 0)"
  "calls (heap inboundNode 0) = []"
  by (simp_all add: inboundNode_def onPeer_def exampleNode_def examplePeer_def
      Peer_of_peerInfo_def truthy_def Constants_protocolVersion_def)

lemma versionKnownNode_facts:
  "truthy (version (heap versionKnownNode 0))"
  "\<not> inbound (heap versionKnownNode 0)"
  "calls (heap versionKnownNode 0) = []"
  by (simp_all add: versionKnownNode_def onPeer_def exampleNode_def examplePeer_def
      Peer_of_peerInfo_def truthy_def Constants_protocolVersion_def)

text \<open>
  An outbound peer whose version is known, an inbound peer whose version is known, and the
  outbound peer of the example node, whose version is not.
\<close>

theorem verack_received_witness:
  "message msgVerack = MSG_VERACK
   \<and> truthy (version (heap versionKnownNode 0)) \<and> \<not> inbound (heap versionKnownNode 0)
   \<and> fullyConnected (heap (incomingMessage exampleFactory versionKnownNode 0 msgVerack) 0)
   \<and> sentMessages (calls (heap (incomingMessage exampleFactory versionKnownNode 0 msgVerack) 0))
        = [msgGetAddr]
   \<and> truthy (version (heap inboundNode 0)) \<and> inbound (heap inboundNode 0)
   \<and> fullyConnected (heap (incomingMessage exampleFactory inboundNode 0 msgVerack) 0)
   \<and> sentMessages (calls (heap (incomingMessage exampleFactory inboundNode 0 msgVerack) 0)) = []
   \<and> \<not> truthy (version (heap exampleNode 0))
   \<and> incomingMessage exampleFactory exampleNode 0 msgVerack = exampleNode"
proof -
  have unset: "\<not> truthy (version (heap exampleNode 0))"
    by (simp add: exampleNode_facts truthy_def)
  from verack_received [OF msgVerack_tag, of versionKnownNode 0 exampleFactory]
    verack_received [OF msgVerack_tag, of inboundNode 0 exampleFactory]
    verack_received [OF msgVerack_tag, of exampleNode 0 exampleFactory]
    versionKnownNode_facts inboundNode_facts unset msgVerack_tag
  show ?thesis by simp
qed

text \<open>
  C5 as stated fails: the node initiated the connection to the peer of the example node,
  the peer sends a verack before any version, and no getaddr is sent.
\<close>

theorem verack_outbound_counterexample:
  "\<not> inbound (heap exampleNode 0)
   \<and> sentMessages (calls (heap (incomingMessage exampleFactory exampleNode 0 msgVerack) 0)) = []"
proof -
  have "incomingMessage exampleFactory exampleNode 0 msgVerack = exampleNode"
    by (simp add: verack_step [OF msgVerack_tag] handleVerackMessage_def exampleNode_facts
        truthy_def)
  then show ?thesis
    by (simp add: exampleNode_facts)
qed

subsection \<open>Transactions\<close>

text \<open>
  C6. A transaction message from a fully connected peer whose sender account is absent in
  the storage makes \<open>_checkTx\<close> throw; the transaction is not submitted to the mempool and
  not handed to the relay, nothing is sent, and the score of the peer goes up by exactly 1.
\<close>

theorem unknown_account:
  assumes "fullyConnected (heap n r)"
    and "message m = MSG_TX"
    and "payload m = TxPayload tx"
    and "this_storage n (Crypto_address f (publicKey tx)) = Inr None"
  shows "incomingMessage f n r m = n\<lparr>heap := (heap n)(r := misbehave 1 (heap n r))\<rparr>
       \<and> checkTx f n tx = Inl (Error ''Account doesn't found'')
       \<and> this_mempool (incomingMessage f n r m) = this_mempool n
       \<and> relayed (incomingMessage f n r m) = relayed n
       \<and> sentMessages (calls (heap (incomingMessage f n r m) r)) = sentMessages (calls (heap n r))
       \<and> misbehaviorScore (heap (incomingMessage f n r m) r) = misbehaviorScore (heap n r) + 1"
proof -
  have check: "checkTx f n tx = Inl (Error ''Account doesn't found'')"
    using assms(4) by (simp add: checkTx_def)
  have thrown: "incomingMessage_try f n r m = Inl (Error ''Account doesn't found'', n)"
    using assms(1-3) check
    by (simp add: incomingMessage_try_def handleTx_def isType messageTypes)
  have step: "incomingMessage f n r m = onPeer r (misbehave 1) n"
    by (simp add: incomingMessage_def thrown)
  show ?thesis
    unfolding step check
    by (simp add: onPeer_def misbehave_score misbehave_calls sentMessages_append)
qed

theorem unknown_account_witness:
  "fullyConnected (heap connectedNode 0)
   \<and> message (MsgTx exampleTx) = MSG_TX
   \<and> payload (MsgTx exampleTx) = TxPayload exampleTx
   \<and> this_storage connectedNode (Crypto_address exampleFactory (publicKey exampleTx)) = Inr None
   \<and> this_mempool (incomingMessage exampleFactory connectedNode 0 (MsgTx exampleTx))
       = this_mempool connectedNode
   \<and> relayed (incomingMessage exampleFactory connectedNode 0 (MsgTx exampleTx)) = []
   \<and> misbehaviorScore (heap (incomingMessage exampleFactory connectedNode 0 (MsgTx exampleTx)) 0) = 1"
proof -
  have absent:
    "this_storage connectedNode (Crypto_address exampleFactory (publicKey exampleTx)) = Inr None"
    by (simp add: connectedNode_def onPeer_def exampleNode_def exampleFactory_def exampleTx_def)
  from unknown_account [OF connectedNode_facts(1) MsgTx_fields absent]
    connectedNode_facts MsgTx_fields absent
  show ?thesis
    by (simp add: misbehave_score)
qed

subsection \<open>Local failures\<close>

lemma storage_failure_thrown:
  assumes "fullyConnected (heap n r)"
    and "message m = MSG_TX"
    and "payload m = TxPayload tx"
    and "this_storage n (Crypto_address f (publicKey tx)) = Inl e"
  shows "incomingMessage_try f n r m = Inl (e, n)"
  using assms
  by (simp add: incomingMessage_try_def handleTx_def checkTx_def isType messageTypes)

lemma broken_storage:
  "this_storage connectedNode (Crypto_address exampleFactory (publicKey brokenTx))
     = Inl (Error ''storage failure'')"
  by (simp add: connectedNode_def onPeer_def exampleNode_def exampleFactory_def brokenTx_def)

text \<open>
  C7, as amended. When the storage throws during the account lookup for a transaction
  message of a fully connected peer (a failure local to the node), the \<open>catch\<close> of the
  dispatcher handles it like any other error: the score of the sending peer goes up by
  exactly 1. The transaction is not submitted to the mempool and not handed to the relay.
\<close>

theorem local_failure_costs_peer:
  assumes "fullyConnected (heap n r)"
    and "message m = MSG_TX"
    and "payload m = TxPayload tx"
    and "this_storage n (Crypto_address f (publicKey tx)) = Inl e"
  shows "incomingMessage f n r m = n\<lparr>heap := (heap n)(r := misbehave 1 (heap n r))\<rparr>
       \<and> misbehaviorScore (heap (incomingMessage f n r m) r) = misbehaviorScore (heap n r) + 1
       \<and> this_mempool (incomingMessage f n r m) = this_mempool n
       \<and> relayed (incomingMessage f n r m) = relayed n"
proof -
  have step: "incomingMessage f n r m = onPeer r (misbehave 1) n"
    using assms by (intro catch_all storage_failure_thrown)
  show ?thesis
    unfolding step by (simp add: onPeer_def misbehave_score)
qed

theorem local_failure_costs_peer_witness:
  "fullyConnected (heap connectedNode 0)
   \<and> message (MsgTx brokenTx) = MSG_TX \<and> payload (MsgTx brokenTx) = TxPayload brokenTx
   \<and> this_storage connectedNode (Crypto_address exampleFactory (publicKey brokenTx))
        = Inl (Error ''storage failure'')
   \<and> misbehaviorScore (heap (incomingMessage exampleFactory connectedNode 0 (MsgTx brokenTx)) 0) = 1
   \<and> relayed (incomingMessage exampleFactory connectedNode 0 (MsgTx brokenTx)) = []"
proof -
  from local_failure_costs_peer [OF connectedNode_facts(1) MsgTx_fields broken_storage]
    connectedNode_facts MsgTx_fields broken_storage
  show ?thesis
    by (simp add: misbehave_score)
qed

text \<open>
  C7 as stated fails: the storage of the node throws while the transaction of a fully
  connected peer is checked, and the score of the peer goes from 0 to 1.
\<close>

theorem local_failure_counterexample:
  "this_storage connectedNode (Crypto_address exampleFactory (publicKey brokenTx))
        = Inl (Error ''storage failure'')
   \<and> misbehaviorScore (heap connectedNode 0) = 0
   \<and> misbehaviorScore (heap (incomingMessage exampleFactory connectedNode 0 (MsgTx brokenTx)) 0) = 1"
proof -
  have "incomingMessage exampleFactory connectedNode 0 (MsgTx brokenTx)
      = onPeer 0 (misbehave 1) connectedNode"
    by (rule catch_all)
      (rule storage_failure_thrown [OF connectedNode_facts(1) MsgTx_fields broken_storage])
  then show ?thesis
    by (simp add: broken_storage connectedNode_facts onPeer_def misbehave_score)
qed

subsection \<open>Reject\<close>

text \<open>
  C9. A reject message, whatever the handshake state of its sender (there is no
  hypothesis on \<open>fullyConnected\<close>), sets \<open>loadDone\<close> of the peer, which is what \<open>loaded()\<close>
  waits for, and raises its score by exactly 1.
\<close>

theorem reject_received:
  assumes "message m = MSG_REJECT"
    and "payload m = RejectPayload code reason"
  shows "incomingMessage f n r m
           = n\<lparr>heap := (heap n)(r := (misbehave 1 (heap n r))\<lparr>loadDone := True\<rparr>)\<rparr>
       \<and> loadDone (heap (incomingMessage f n r m) r)
       \<and> misbehaviorScore (heap (incomingMessage f n r m) r) = misbehaviorScore (heap n r) + 1"
proof -
  have step: "incomingMessage f n r m
      = onPeer r (\<lambda>p. p\<lparr>loadDone := True\<rparr>) (onPeer r (misbehave 1) n)"
    using assms by (simp add: incomingMessage_def incomingMessage_try_def isType)
  show ?thesis
    unfolding step by (simp add: onPeer_def misbehave_score)
qed

text \<open>A reject from a peer that is not fully connected.\<close>

theorem reject_received_witness:
  "message (MsgReject 1 ''Duplicate connection detected'') = MSG_REJECT
   \<and> payload (MsgReject 1 ''Duplicate connection detected'')
       = RejectPayload 1 ''Duplicate connection detected''
   \<and> \<not> fullyConnected (heap exampleNode 0)
   \<and> loadDone (heap (incomingMessage exampleFactory exampleNode 0
        (MsgReject 1 ''Duplicate connection detected'')) 0)
   \<and> misbehaviorScore (heap (incomingMessage exampleFactory exampleNode 0
        (MsgReject 1 ''Duplicate connection detected'')) 0) = 1"
proof -
  have tag: "message (MsgReject 1 ''Duplicate connection detected'') = MSG_REJECT"
    by (simp add: MsgReject_def)
  have load: "payload (MsgReject 1 ''Duplicate connection detected'')
       = RejectPayload 1 ''Duplicate connection detected''"
    by (simp add: MsgReject_def)
  from reject_received [OF tag load, of exampleFactory exampleNode 0] exampleNode_facts tag load
  show ?thesis
    by (simp add: misbehave_score)
qed

subsection \<open>Unhandled message types\<close>

text \<open>
  C10. For a fully connected peer, a message whose type is none of reject, version,
  verack, getaddr, addr and tx makes the dispatcher throw "Unhandled message type"; the
  \<open>catch\<close> calls \<open>peer.misbehave(1)\<close>, and that call is the whole effect: the score goes up by
  exactly 1, nothing is sent, and the address book, the mempool and the relay list are
  unchanged. While the new score is below \<open>BAN_PEER_SCORE\<close>, the score and the journal are all
  that changes in the peer.
\<close>

theorem unhandled_message:
  assumes "fullyConnected (heap n r)"
    and "message m \<noteq> MSG_REJECT" and "message m \<noteq> MSG_VERSION" and "message m \<noteq> MSG_VERACK"
    and "message m \<noteq> MSG_GET_ADDR" and "message m \<noteq> MSG_ADDR" and "message m \<noteq> MSG_TX"
  shows "incomingMessage f n r m = n\<lparr>heap := (heap n)(r := misbehave 1 (heap n r))\<rparr>
       \<and> incomingMessage_try f n r m = Inl (Error ''Unhandled message type'', n)
       \<and> misbehaviorScore (heap (incomingMessage f n r m) r) = misbehaviorScore (heap n r) + 1
       \<and> calls (heap (incomingMessage f n r m) r) = calls (heap n r) @ [CallMisbehave 1]
       \<and> sentMessages (calls (heap (incomingMessage f n r m) r)) = sentMessages (calls (heap n r))
       \<and> loadDone (heap (incomingMessage f n r m) r) = loadDone (heap n r)
       \<and> this_peerManager (incomingMessage f n r m) = this_peerManager n
       \<and> this_mempool (incomingMessage f n r m) = this_mempool n
       \<and> relayed (incomingMessage f n r m) = relayed n
       \<and> (misbehaviorScore (heap n r) + 1 < BAN_PEER_SCORE \<longrightarrow>
            heap (incomingMessage f n r m) r
              = (heap n r)\<lparr>misbehaviorScore := misbehaviorScore (heap n r) + 1,
                            calls := calls (heap n r) @ [CallMisbehave 1]\<rparr>)"
proof -
  have thrown: "incomingMessage_try f n r m = Inl (Error ''Unhandled message type'', n)"
    using assms by (simp add: incomingMessage_try_def isType)
  have step: "incomingMessage f n r m = onPeer r (misbehave 1) n"
    by (simp add: incomingMessage_def thrown)
  have below: "misbehaviorScore (heap n r) + 1 < BAN_PEER_SCORE \<longrightarrow>
      heap (onPeer r (misbehave 1) n) r
        = (heap n r)\<lparr>misbehaviorScore := misbehaviorScore (heap n r) + 1,
                      calls := calls (heap n r) @ [CallMisbehave 1]\<rparr>"
    by (simp add: onPeer_def misbehave_below)
  show ?thesis
    unfolding step thrown using below
    by (simp add: onPeer_def misbehave_score misbehave_calls misbehave_keeps sentMessages_append)
qed

text \<open>A ping from the fully connected peer.\<close>

theorem unhandled_message_witness:
  "fullyConnected (heap connectedNode 0)
   \<and> message msgPing \<noteq> MSG_REJECT \<and> message msgPing \<noteq> MSG_VERSION
   \<and> message msgPing \<noteq> MSG_VERACK \<and> message msgPing \<noteq> MSG_GET_ADDR
   \<and> message msgPing \<noteq> MSG_ADDR \<and> message msgPing \<noteq> MSG_TX
   \<and> misbehaviorScore (heap connectedNode 0) + 1 < BAN_PEER_SCORE
   \<and> misbehaviorScore (heap (incomingMessage exampleFactory connectedNode 0 msgPing) 0) = 1
   \<and> sentMessages (calls (heap (incomingMessage exampleFactory connectedNode 0 msgPing) 0)) = []
   \<and> heap (incomingMessage exampleFactory connectedNode 0 msgPing) 0
       = (heap connectedNode 0)\<lparr>misbehaviorScore := 1, calls := [CallMisbehave 1]\<rparr>"
proof -
  have tags: "message msgPing \<noteq> MSG_REJECT" "message msgPing \<noteq> MSG_VERSION"
    "message msgPing \<noteq> MSG_VERACK" "message msgPing \<noteq> MSG_GET_ADDR"
    "message msgPing \<noteq> MSG_ADDR" "message msgPing \<noteq> MSG_TX"
    by (simp_all add: msgPing_def messageTypes)
  from unhandled_message [OF connectedNode_facts(1) tags, of exampleFactory]
    connectedNode_facts tags
  show ?thesis
    by (simp add: misbehave_score misbehave_calls sentMessages_append misbehave_below)
qed

end
